theory Spec2Isabelle
  imports
    Main
    "HOL-Library.AList"
    "HOL-Library.Sublist"
    "HOL-Library.Char_ord"
    "HOL-Library.List_Lexorder"
    "HOL-Library.Product_Lexorder"
begin

section \<open>Data model\<close>

text \<open>
  The application keeps \<open>Booking\<close> documents in a record store and reads \<open>Package\<close> and
  \<open>Resource\<close> documents from a catalogue. A document is stored whole: the child rows of a
  booking (participants, special requests, variation quantities) are the lists the document
  carries, so a query on a child table with \<open>parent IN names\<close> and \<open>parenttype = 'Booking'\<close>
  ranges over the lists of the bookings so named. Dates are ISO strings (\<open>YYYY-MM-DD\<close>), whose
  string order is the calendar order.
\<close>

datatype pyval = Str string | Num int

type_synonym pydict = "(pyval \<times> pyval) list"

type_synonym participant = "(string \<times> string) list"

type_synonym special_request = "(string \<times> string) list"

record line_item =
  vq_variation :: string
  vq_quantity :: int

record booking =
  name :: string
  booking_name :: string
  email :: string
  contact_number :: string
  package :: string
  booking_date :: string
  status :: string
  quantity :: int
  participants :: "participant list"
  special_requests :: "special_request list"
  variation_quantity :: "line_item list"

record package_doc =
  package_name :: string
  resource :: string

record resource_doc =
  resource_name :: string
  capacity :: int

record db =
  tabBooking :: "booking list"
  tabPackage :: "string \<rightharpoonup> package_doc"
  tabResource :: "string \<rightharpoonup> resource_doc"

text \<open>
  A database connection holds the committed tables and the tables as the running transaction
  sees them. Reads and writes go to the transaction's view; \<open>commit\<close> publishes it,
  \<open>rollback\<close> discards it. A request starts on a connection without uncommitted writes.
\<close>

record conn =
  committed :: db
  pending :: db

definition connect :: "db \<Rightarrow> conn" where
  "connect d = \<lparr>committed = d, pending = d\<rparr>"

definition commit :: "conn \<Rightarrow> conn" where
  "commit c = c\<lparr>committed := pending c\<rparr>"

definition rollback :: "conn \<Rightarrow> conn" where
  "rollback c = c\<lparr>pending := committed c\<rparr>"

section \<open>Exceptions and the response envelope\<close>

datatype exn =
    ValueError string
  | TypeError string
  | DoesNotExistError string
  | DuplicateEntryError string
  | ValidationError string
  | SQLError string

fun str :: "exn \<Rightarrow> string" where
  "str (ValueError m) = m"
| "str (TypeError m) = m"
| "str (DoesNotExistError m) = m"
| "str (DuplicateEntryError m) = m"
| "str (ValidationError m) = m"
| "str (SQLError m) = m"

datatype data =
    Empty_data
  | Booking_data booking
  | Status_data string string string
  | Manifest_data string string string "(string \<times> string option) list list"

record response =
  resp_status :: string
  resp_data :: data
  resp_message :: string

definition success :: "data \<Rightarrow> string \<Rightarrow> response" where
  "success d m = \<lparr>resp_status = ''success'', resp_data = d, resp_message = m\<rparr>"

definition error :: "string \<Rightarrow> response" where
  "error m = \<lparr>resp_status = ''error'', resp_data = Empty_data, resp_message = m\<rparr>"

definition quoted :: "string \<Rightarrow> string" where
  "quoted s = CHR 0x27 # s @ [CHR 0x27]"

section \<open>The record store\<close>

text \<open>
  \<open>frappe.get_doc("Booking", name)\<close> returns the document or raises \<open>DoesNotExistError\<close>.
  A document is truthy, so the \<open>if not booking\<close> tests that follow it in the sources never fire
  and have no branch here.
\<close>

definition get_doc :: "db \<Rightarrow> string \<Rightarrow> exn + booking" where
  "get_doc d n =
     (case find (\<lambda>b. name b = n) (tabBooking d) of
        None \<Rightarrow> Inl (DoesNotExistError (''Booking '' @ n @ '' not found''))
      | Some b \<Rightarrow> Inr b)"

definition get_package :: "db \<Rightarrow> string \<Rightarrow> exn + package_doc" where
  "get_package d n =
     (case tabPackage d n of
        None \<Rightarrow> Inl (DoesNotExistError (''Package '' @ n @ '' not found''))
      | Some p \<Rightarrow> Inr p)"

definition get_resource :: "db \<Rightarrow> string \<Rightarrow> exn + resource_doc" where
  "get_resource d n =
     (case tabResource d n of
        None \<Rightarrow> Inl (DoesNotExistError (''Resource '' @ n @ '' not found''))
      | Some r \<Rightarrow> Inr r)"

text \<open>
  Modelled from the spec: the Booking document class is not among the sources. The spec gives
  a booking the derived attribute \<open>quantity\<close>, the sum of all its line-item quantities; the
  class is taken to set it whenever the document is written.
\<close>

definition total :: "line_item list \<Rightarrow> int" where
  "total items = sum_list (map vq_quantity items)"

definition validate :: "booking \<Rightarrow> booking" where
  "validate b = b\<lparr>quantity := total (variation_quantity b)\<rparr>"

text \<open>
  \<open>doc.insert()\<close> adds the document under its name and raises when the name is taken;
  \<open>doc.save()\<close> replaces the stored document of that name. Both write to the transaction.
\<close>

definition insert_doc :: "conn \<Rightarrow> booking \<Rightarrow> exn + conn" where
  "insert_doc c b =
     (if \<exists>x \<in> set (tabBooking (pending c)). name x = name b
      then Inl (DuplicateEntryError (''Booking '' @ name b @ '' already exists''))
      else Inr (c\<lparr>pending := (pending c)\<lparr>tabBooking := tabBooking (pending c) @ [validate b]\<rparr>\<rparr>))"

definition save :: "conn \<Rightarrow> booking \<Rightarrow> conn" where
  "save c b =
     c\<lparr>pending := (pending c)\<lparr>tabBooking :=
         map (\<lambda>x. if name x = name b then validate b else x) (tabBooking (pending c))\<rparr>\<rparr>"

section \<open>Booking API: finalize\<close>

text \<open>
  The body of the \<open>try\<close> block: what it returns or raises, and the connection it leaves.
\<close>

definition finalize_try :: "conn \<Rightarrow> string \<Rightarrow> (exn + booking) \<times> conn" where
  "finalize_try c booking_name' =
     (case get_doc (pending c) booking_name' of
        Inl e \<Rightarrow> (Inl e, c)
      | Inr b \<Rightarrow>
          if status b \<noteq> ''Created''
          then (Inl (ValueError (''Booking '' @ quoted booking_name' @ '' already finalized'')), c)
          else let b' = b\<lparr>status := ''Pending''\<rparr>;
                   c' = commit (save c b')
               in (Inr b', c'))"

definition finalize :: "conn \<Rightarrow> string \<Rightarrow> response \<times> conn" where
  "finalize c booking_name' =
     (case finalize_try c booking_name' of
        (Inr b, c') \<Rightarrow>
          (success (Status_data (name b) (booking_name b) (status b))
             ''Booking status updated successfully'', c')
      | (Inl (DoesNotExistError m), c') \<Rightarrow>
          (error (''Booking '' @ quoted booking_name' @ '' not found''), c')
      | (Inl e, c') \<Rightarrow>
          (error (''Failed to update booking status: '' @ str e), rollback c'))"

section \<open>Booking API: create\<close>

text \<open>
  What the framework decides for a \<open>create\<close> or \<open>update_manifest\<close> call: the date parser
  (\<open>None\<close> where \<open>getdate\<close> raises \<open>ValueError\<close>), the e-mail address check, the name the store
  gives the inserted document, and the declared non-layout fields of the participant type.
\<close>

record env =
  getdate :: "string \<Rightarrow> string option"
  validate_email_address :: "string \<Rightarrow> bool"
  autoname :: string
  declared_fields :: "string list"

definition create_try ::
  "conn \<Rightarrow> env \<Rightarrow> string \<Rightarrow> string \<Rightarrow> string \<Rightarrow> string \<Rightarrow> string \<Rightarrow> line_item list option \<Rightarrow>
   participant list option \<Rightarrow> special_request list option \<Rightarrow> (exn + booking) \<times> conn" where
  "create_try c fw booking_name' email' contact_number' package' booking_date'
      variation_quantity' participants' special_requests' =
     (if \<not> (booking_name' \<noteq> [] \<and> email' \<noteq> [] \<and> contact_number' \<noteq> [] \<and> package' \<noteq> []
            \<and> booking_date' \<noteq> [])
      then (Inl (ValueError ''All required fields must be provided''), c)
      else case get_package (pending c) package' of
        Inl e \<Rightarrow> (Inl e, c)
      | Inr pkg \<Rightarrow>
         (case getdate fw booking_date' of
            None \<Rightarrow> (Inl (ValueError ''Invalid booking date format. Use YYYY-MM-DD''), c)
          | Some date \<Rightarrow>
             if variation_quantity' = None \<or> variation_quantity' = Some []
             then (Inl (ValueError ''Invalid variations provided''), c)
             else if \<not> validate_email_address fw email'
             then (Inl (ValueError ''Invalid email address''), c)
             else
               let doc = \<lparr>name = autoname fw,
                          booking_name = booking_name',
                          email = email',
                          contact_number = contact_number',
                          package = package',
                          booking_date = date,
                          status = ''Created'',
                          quantity = 0,
                          participants = (case participants' of None \<Rightarrow> [] | Some ps \<Rightarrow> ps),
                          special_requests = (case special_requests' of None \<Rightarrow> [] | Some rs \<Rightarrow> rs),
                          variation_quantity = (case variation_quantity' of None \<Rightarrow> [] | Some vs \<Rightarrow> vs)\<rparr>
               in case insert_doc c doc of
                    Inl e \<Rightarrow> (Inl e, c)
                  | Inr c' \<Rightarrow> (Inr (validate doc), commit c')))"

definition create ::
  "conn \<Rightarrow> env \<Rightarrow> string \<Rightarrow> string \<Rightarrow> string \<Rightarrow> string \<Rightarrow> string \<Rightarrow> line_item list option \<Rightarrow>
   participant list option \<Rightarrow> special_request list option \<Rightarrow> response \<times> conn" where
  "create c fw booking_name' email' contact_number' package' booking_date'
      variation_quantity' participants' special_requests' =
     (case create_try c fw booking_name' email' contact_number' package' booking_date'
             variation_quantity' participants' special_requests' of
        (Inr b, c') \<Rightarrow> (success (Booking_data b) ''Booking created successfully'', c')
      | (Inl e, c') \<Rightarrow> (error (''Failed to create booking: '' @ str e), rollback c'))"

section \<open>Booking API: update\_manifest\<close>

text \<open>
  \<open>{"doctype": "Booking Participant", **p}\<close>: the tag comes first and a \<open>doctype\<close> key of
  \<open>p\<close> overrides its value.
\<close>

definition with_doctype :: "participant \<Rightarrow> participant" where
  "with_doctype p =
     (''doctype'', (case map_of p ''doctype'' of None \<Rightarrow> ''Booking Participant'' | Some v \<Rightarrow> v))
       # filter (\<lambda>kv. fst kv \<noteq> ''doctype'') p"

definition append_participant :: "participant \<Rightarrow> booking \<Rightarrow> booking" where
  "append_participant p b = b\<lparr>participants := participants b @ [with_doctype p]\<rparr>"

definition update_manifest_try ::
  "conn \<Rightarrow> string \<Rightarrow> participant list option \<Rightarrow> (exn + booking) \<times> conn" where
  "update_manifest_try c booking_name' participants' =
     (case get_doc (pending c) booking_name' of
        Inl e \<Rightarrow> (Inl e, c)
      | Inr b \<Rightarrow>
         (case participants' of
            None \<Rightarrow> (Inl (TypeError ''object of type 'NoneType' has no len()''), c)
          | Some ps \<Rightarrow>
             if int (length ps) > quantity b
             then (Inl (ValueError ''Manifest has too many participants''), c)
             else let b' = fold append_participant ps (b\<lparr>participants := []\<rparr>);
                      c' = commit (save c b')
                  in (Inr (validate b'), c')))"

definition update_manifest ::
  "conn \<Rightarrow> env \<Rightarrow> string \<Rightarrow> participant list option \<Rightarrow> response \<times> conn" where
  "update_manifest c fw booking_name' participants' =
     (case update_manifest_try c booking_name' participants' of
        (Inr b, c') \<Rightarrow>
          (success
             (Manifest_data (name b) (booking_name b) (status b)
                (map (\<lambda>row. map (\<lambda>field. (field, map_of row field)) (declared_fields fw))
                   (participants b)))
             ''Booking status updated successfully'', c')
      | (Inl (DoesNotExistError m), c') \<Rightarrow>
          (error (''Booking '' @ quoted booking_name' @ '' not found''), c')
      | (Inl e, c') \<Rightarrow>
          (error (''Failed to update booking status: '' @ str e), rollback c'))"

section \<open>Scheduled trips: filters\<close>

text \<open>
  The \<open>filters\<close> argument is a mapping or a list of tuples (a JSON string is decoded to one of
  the two first). A Python \<open>dict\<close> keeps its keys in insertion order and an assignment to a
  present key replaces the value in place, which is \<open>AList.update\<close>.
\<close>

datatype filters_in = Filter_dict pydict | Filter_list "pyval list list"

definition simple_filters_to_dict :: "pyval list list \<Rightarrow> pydict" where
  "simple_filters_to_dict filters' =
     fold (\<lambda>f out. if length f = 4 \<and> f ! 2 = Str ''='' then AList.update (f ! 1) (f ! 3) out else out)
       filters' []"

fun truthy :: "pyval option \<Rightarrow> bool" where
  "truthy None = False"
| "truthy (Some (Str s)) = (s \<noteq> [])"
| "truthy (Some (Num i)) = (i \<noteq> 0)"

definition normalize :: "filters_in \<Rightarrow> pydict" where
  "normalize f = (case f of Filter_list fs \<Rightarrow> simple_filters_to_dict fs | Filter_dict d \<Rightarrow> d)"

text \<open>The columns of the Booking table, by name; \<open>None\<close> for a name that is no column.\<close>

definition column :: "string \<Rightarrow> booking \<Rightarrow> pyval option" where
  "column k b =
     (if k = ''name'' then Some (Str (name b))
      else if k = ''booking_name'' then Some (Str (booking_name b))
      else if k = ''email'' then Some (Str (email b))
      else if k = ''contact_number'' then Some (Str (contact_number b))
      else if k = ''package'' then Some (Str (package b))
      else if k = ''booking_date'' then Some (Str (booking_date b))
      else if k = ''status'' then Some (Str (status b))
      else if k = ''quantity'' then Some (Num (quantity b))
      else None)"

section \<open>Scheduled trips: get\_list\<close>

text \<open>
  \<open>GROUP BY\<close>: the rows are partitioned by key; each group is listed with its first row, from
  which the non-aggregated columns are read.
\<close>

fun groups :: "('a \<Rightarrow> 'k) \<Rightarrow> 'a list \<Rightarrow> ('a \<times> 'a list) list" where
  "groups k [] = []"
| "groups k (x # xs) =
     (x, x # filter (\<lambda>y. k y = k x) xs) # groups k (filter (\<lambda>y. k y \<noteq> k x) xs)"

record trip_row =
  row_name :: string
  row_booking_date :: string
  row_package :: string
  row_resource :: string
  row_resource_name :: string
  row_capacity :: int
  row_quantity :: int

record listed_trip = trip_row +
  row_id :: string

text \<open>
  \<open>FROM tabBooking b INNER JOIN tabPackage p ON p.name = b.package
     INNER JOIN tabResource r ON r.name = p.resource\<close>
\<close>

definition joined :: "db \<Rightarrow> (booking \<times> package_doc \<times> resource_doc) list" where
  "joined d =
     concat (map (\<lambda>b.
       case tabPackage d (package b) of
         None \<Rightarrow> []
       | Some p \<Rightarrow> (case tabResource d (resource p) of None \<Rightarrow> [] | Some r \<Rightarrow> [(b, p, r)]))
       (tabBooking d))"

definition where_clause :: "(string \<times> pyval) list \<Rightarrow> booking \<Rightarrow> bool" where
  "where_clause conditions b \<longleftrightarrow>
     status b = ''Approved'' \<and> list_all (\<lambda>(k, v). column k b = Some v) conditions"

definition select_row :: "(booking \<times> package_doc \<times> resource_doc) \<times> (booking \<times> package_doc \<times> resource_doc) list
    \<Rightarrow> trip_row" where
  "select_row g =
     (case g of ((b, p, r), rows) \<Rightarrow>
        \<lparr>row_name = name b,
         row_booking_date = booking_date b,
         row_package = package_name p,
         row_resource = resource p,
         row_resource_name = resource_name r,
         row_capacity = capacity r,
         row_quantity = sum_list (map (\<lambda>(b', p', r'). quantity b') rows)\<rparr>)"

definition select_trips :: "db \<Rightarrow> (string \<times> pyval) list \<Rightarrow> trip_row list" where
  "select_trips d conditions =
     sort_key (\<lambda>t. (row_booking_date t, row_package t))
       (map select_row
          (groups (\<lambda>(b, p, r). (package b, booking_date b))
             (filter (\<lambda>(b, p, r). where_clause conditions b) (joined d))))"

definition sql :: "db \<Rightarrow> (string \<times> pyval) list \<Rightarrow> int \<Rightarrow> int \<Rightarrow> exn + trip_row list" where
  "sql d conditions limit offset =
     (if limit < 0 \<or> offset < 0
      then Inl (SQLError ''You have an error in your SQL syntax'')
      else Inr (take (nat limit) (drop (nat offset) (select_trips d conditions))))"

definition with_id :: "trip_row \<Rightarrow> listed_trip" where
  "with_id row = trip_row.extend row
     (listed_trip.fields (row_package row @ ''-'' @ row_booking_date row))"

record list_args =
  limit_start :: "int option"
  limit_page_length :: "int option"
  filters :: "filters_in option"

definition no_args :: list_args where
  "no_args = \<lparr>limit_start = None, limit_page_length = None, filters = None\<rparr>"

text \<open>
  The equality conditions appended to the \<open>WHERE\<close> clause, each with the value bound to it:
  only the keys \<open>package\<close> and \<open>booking_date\<close> are read, and only when their value is truthy.
\<close>

definition conditions :: "pydict \<Rightarrow> (string \<times> pyval) list" where
  "conditions filters' =
     (if truthy (map_of filters' (Str ''package''))
      then [(''package'', the (map_of filters' (Str ''package'')))] else [])
     @ (if truthy (map_of filters' (Str ''booking_date''))
        then [(''booking_date'', the (map_of filters' (Str ''booking_date'')))] else [])"

definition get_list :: "db \<Rightarrow> list_args option \<Rightarrow> exn + listed_trip list" where
  "get_list d args =
     (let args = (case args of None \<Rightarrow> no_args | Some a \<Rightarrow> a);
          limit_start' = (case limit_start args of None \<Rightarrow> 0 | Some i \<Rightarrow> i);
          limit_page_length' = (case limit_page_length args of None \<Rightarrow> 20 | Some i \<Rightarrow> i);
          filters' = normalize (case filters args of None \<Rightarrow> Filter_list [] | Some f \<Rightarrow> f)
      in case sql d (conditions filters') limit_page_length' limit_start' of
           Inl e \<Rightarrow> Inl e
         | Inr results \<Rightarrow> Inr (map with_id results))"

section \<open>Scheduled trips: get\_count\<close>

text \<open>
  \<open>frappe.db.get_all("Booking", filters=..., group_by=...)\<close> with a mapping of
  field to value: every key is a column of the table and every row returned has that value
  in it; a key that is no column is a database error.
\<close>

fun field_name :: "pyval \<Rightarrow> string option" where
  "field_name (Str k) = (if k \<in> set [''name'', ''booking_name'', ''email'', ''contact_number'',
       ''package'', ''booking_date'', ''status'', ''quantity''] then Some k else None)"
| "field_name (Num i) = None"

definition get_all :: "db \<Rightarrow> pydict \<Rightarrow> exn + booking list" where
  "get_all d filters' =
     (if list_all (\<lambda>(k, v). field_name k \<noteq> None) filters'
      then Inr (filter (\<lambda>b. list_all (\<lambda>(k, v). column (the (field_name k)) b = Some v) filters')
                  (tabBooking d))
      else Inl (SQLError ''Unknown column''))"

definition get_count :: "db \<Rightarrow> filters_in option \<Rightarrow> exn + nat" where
  "get_count d args_filters =
     (let user_filters = normalize (case args_filters of None \<Rightarrow> Filter_dict [] | Some f \<Rightarrow> f);
          filters' = AList.update (Str ''status'') (Str ''Approved'') user_filters
      in case get_all d filters' of
           Inl e \<Rightarrow> Inl e
         | Inr rows \<Rightarrow> Inr (length (groups (\<lambda>b. (package b, booking_date b)) rows)))"

section \<open>Scheduled trips: load\_from\_db\<close>

record trip =
  trip_name :: string
  trip_booking_date :: string
  trip_package :: string
  trip_capacity :: int
  trip_quantity :: int
  trip_bookings :: "(nat \<times> booking) list"
  trip_participants :: "(nat \<times> participant) list"
  trip_variation_quantity :: "(nat \<times> line_item) list"

text \<open>
  \<open>SELECT variation, SUM(quantity) AS quantity ... GROUP BY variation\<close> over the selected
  line items.
\<close>

definition sum_by_variation :: "line_item list \<Rightarrow> line_item list" where
  "sum_by_variation items =
     map (\<lambda>(x, g). \<lparr>vq_variation = vq_variation x, vq_quantity = total g\<rparr>)
       (groups vq_variation items)"

definition load_from_db :: "db \<Rightarrow> string \<Rightarrow> exn + trip" where
  "load_from_db d self_name =
     (case find (\<lambda>b. status b = ''Approved'' \<and> name b = self_name) (tabBooking d) of
        None \<Rightarrow> Inl (ValidationError ''Scheduled Trip not found'')
      | Some row_doc \<Rightarrow>
         (case get_package d (package row_doc) of
            Inl e \<Rightarrow> Inl e
          | Inr package_doc \<Rightarrow>
             (case get_resource d (resource package_doc) of
                Inl e \<Rightarrow> Inl e
              | Inr resource_doc \<Rightarrow>
                 let bookings_doc =
                       filter (\<lambda>b. status b = ''Approved'' \<and> booking_date b = booking_date row_doc
                                   \<and> package b = package row_doc) (tabBooking d);
                     names = map name bookings_doc;
                     participants_doc =
                       concat (map participants (filter (\<lambda>b. name b \<in> set names) (tabBooking d)));
                     variations_doc =
                       sum_by_variation
                         (concat (map variation_quantity
                            (filter (\<lambda>b. name b \<in> set names) (tabBooking d))));
                     total_quantity = sum_list (map quantity bookings_doc)
                 in Inr \<lparr>trip_name = self_name,
                         trip_booking_date = booking_date row_doc,
                         trip_package = package row_doc,
                         trip_capacity = capacity resource_doc,
                         trip_quantity = total_quantity,
                         trip_bookings = enumerate 1 bookings_doc,
                         trip_participants = enumerate 1 participants_doc,
                         trip_variation_quantity = enumerate 1 variations_doc\<rparr>)))"

section \<open>A sample store\<close>

text \<open>
  The store of the end-to-end scenario, used to run the operations on concrete input: package
  \<open>P1\<close> on 2024-06-01 has two approved bookings and one just created, package \<open>P2\<close> on
  2024-05-01 has one approved booking and one pending.
\<close>

definition adult :: "int \<Rightarrow> line_item" where
  "adult q = \<lparr>vq_variation = ''Adult'', vq_quantity = q\<rparr>"

definition child :: "int \<Rightarrow> line_item" where
  "child q = \<lparr>vq_variation = ''Child'', vq_quantity = q\<rparr>"

definition sample_booking ::
  "string \<Rightarrow> string \<Rightarrow> string \<Rightarrow> string \<Rightarrow> string \<Rightarrow> line_item list \<Rightarrow> booking" where
  "sample_booking n e pkg date st items =
     \<lparr>name = n, booking_name = ''Party '' @ n, email = e, contact_number = ''0123456'',
      package = pkg, booking_date = date, status = st, quantity = total items,
      participants = [], special_requests = [], variation_quantity = items\<rparr>"

definition sample_db :: db where
  "sample_db =
     \<lparr>tabBooking =
        [sample_booking ''B1'' ''ann@example.org'' ''P1'' ''2024-06-01'' ''Approved'' [adult 3],
         (sample_booking ''B2'' ''bob@example.org'' ''P1'' ''2024-06-01'' ''Approved''
            [adult 2, child 1])\<lparr>participants := [[(''full_name'', ''Bob'')]]\<rparr>,
         sample_booking ''B3'' ''cat@example.org'' ''P2'' ''2024-05-01'' ''Approved'' [child 4],
         sample_booking ''B4'' ''dan@example.org'' ''P1'' ''2024-06-01'' ''Created'' [adult 2],
         sample_booking ''B5'' ''eve@example.org'' ''P2'' ''2024-05-01'' ''Pending'' [adult 1]],
      tabPackage =
        [''P1'' \<mapsto> \<lparr>package_name = ''Reef Tour'', resource = ''R1''\<rparr>,
         ''P2'' \<mapsto> \<lparr>package_name = ''Island Hop'', resource = ''R1''\<rparr>],
      tabResource = [''R1'' \<mapsto> \<lparr>resource_name = ''Boat'', capacity = 10\<rparr>]\<rparr>"

definition sample_env :: env where
  "sample_env =
     \<lparr>getdate = (\<lambda>s. if length s = 10 then Some s else None),
      validate_email_address = (\<lambda>s. CHR ''@'' \<in> set s),
      autoname = ''B6'',
      declared_fields = [''full_name'', ''age'']\<rparr>"

section \<open>Store lemmas\<close>

lemma find_name_map_replace:
  "find (\<lambda>x. name x = n) xs = Some b \<Longrightarrow> name b' = n \<Longrightarrow>
   find (\<lambda>x. name x = n) (map (\<lambda>x. if name x = n then b' else x) xs) = Some b'"
  by (induction xs) (auto split: if_splits)

lemma name_validate [simp]: "name (validate b) = name b"
  by (simp add: validate_def)

lemma status_validate [simp]: "status (validate b) = status b"
  by (simp add: validate_def)

lemma participants_validate [simp]: "participants (validate b) = participants b"
  by (simp add: validate_def)

lemma get_doc_Inr_name: "get_doc d n = Inr b \<Longrightarrow> name b = n"
  by (auto simp: get_doc_def split: option.splits dest: find_Some_iff[THEN iffD1])

lemma find_Some_mem: "find P xs = Some x \<Longrightarrow> x \<in> set xs \<and> P x"
  by (induction xs) (auto split: if_splits)

lemma get_doc_Inl_iff:
  "(\<exists>e. get_doc d n = Inl e) \<longleftrightarrow> (\<forall>b \<in> set (tabBooking d). name b \<noteq> n)"
  by (auto simp: get_doc_def find_None_iff split: option.splits dest: find_Some_mem)

lemma get_doc_Inl_msg:
  "get_doc d n = Inl e \<Longrightarrow> e = DoesNotExistError (''Booking '' @ n @ '' not found'')"
  by (auto simp: get_doc_def split: option.splits)

lemma get_doc_save:
  assumes "get_doc (pending c) n = Inr b" and "name b' = n"
  shows "get_doc (pending (save c b')) n = Inr (validate b')"
proof -
  from assms(1) have "find (\<lambda>x. name x = n) (tabBooking (pending c)) = Some b"
    by (auto simp: get_doc_def split: option.splits)
  then have "find (\<lambda>x. name x = n)
      (map (\<lambda>x. if name x = n then validate b' else x) (tabBooking (pending c))) = Some (validate b')"
    using assms(2) by (intro find_name_map_replace) simp_all
  then show ?thesis
    using assms(2) by (simp add: get_doc_def save_def)
qed

subsection \<open>Outcomes of finalize\<close>

lemma finalize_not_found:
  assumes "\<forall>b \<in> set (tabBooking (pending c)). name b \<noteq> n"
  shows "finalize c n = (error (''Booking '' @ quoted n @ '' not found''), c)"
proof -
  from assms obtain e where "get_doc (pending c) n = Inl e"
    using get_doc_Inl_iff by blast
  moreover from this have "e = DoesNotExistError (''Booking '' @ n @ '' not found'')"
    by (rule get_doc_Inl_msg)
  ultimately show ?thesis
    by (simp add: finalize_def finalize_try_def)
qed

lemma finalize_wrong_status:
  assumes "get_doc (pending c) n = Inr b" and "status b \<noteq> ''Created''"
  shows "finalize c n =
    (error (''Failed to update booking status: Booking '' @ quoted n @ '' already finalized''),
     rollback c)"
  using assms by (simp add: finalize_def finalize_try_def)

lemma finalize_created:
  assumes "get_doc (pending c) n = Inr b" and "status b = ''Created''"
  shows "finalize c n =
    (success (Status_data n (booking_name b) ''Pending'') ''Booking status updated successfully'',
     commit (save c (b\<lparr>status := ''Pending''\<rparr>)))"
  using assms get_doc_Inr_name[OF assms(1)]
  by (simp add: finalize_def finalize_try_def Let_def)

lemma rollback_connect [simp]: "rollback (connect d) = connect d"
  by (simp add: rollback_def connect_def)

lemma pending_connect [simp]: "pending (connect d) = d"
  by (simp add: connect_def)

lemma committed_connect [simp]: "committed (connect d) = d"
  by (simp add: connect_def)

lemma pending_commit [simp]: "pending (commit c) = pending c"
  by (simp add: commit_def)

lemma committed_commit [simp]: "committed (commit c) = pending c"
  by (simp add: commit_def)

lemma success_neq_error [simp]: "resp_status (success x m) = ''success''" "resp_status (error m) \<noteq> ''success''"
  "resp_status (error m) = ''error''"
  by (simp_all add: success_def error_def)

section \<open>Lifecycle: finalize\<close>

text \<open>
  Claim C1. On a request's fresh connection, \<open>finalize\<close> succeeds if and only if the booking
  exists and its status is exactly \<open>Created\<close>. Then the committed status is \<open>Pending\<close>, and
  a second \<open>finalize\<close> of the same booking fails as already finalized. A booking in any
  other status fails as already finalized and a name without a booking fails as not found;
  both leave the store as it was.
\<close>

theorem finalize_only_from_created:
  "(resp_status (fst (finalize (connect d) n)) = ''success''
      \<longleftrightarrow> (\<exists>b. get_doc d n = Inr b \<and> status b = ''Created''))
   \<and> (\<forall>b. get_doc d n = Inr b \<and> status b = ''Created'' \<longrightarrow>
         (\<exists>b'. get_doc (committed (snd (finalize (connect d) n))) n = Inr b'
                \<and> status b' = ''Pending'')
         \<and> fst (finalize (snd (finalize (connect d) n)) n) =
             error (''Failed to update booking status: Booking '' @ quoted n
                    @ '' already finalized''))
   \<and> (\<forall>b. get_doc d n = Inr b \<and> status b \<noteq> ''Created'' \<longrightarrow>
         finalize (connect d) n =
           (error (''Failed to update booking status: Booking '' @ quoted n
                   @ '' already finalized''), connect d))
   \<and> ((\<forall>b \<in> set (tabBooking d). name b \<noteq> n) \<longrightarrow>
         finalize (connect d) n = (error (''Booking '' @ quoted n @ '' not found''), connect d))"
proof (cases "get_doc d n")
  case (Inl e)
  then have missing: "\<forall>b \<in> set (tabBooking d). name b \<noteq> n"
    using get_doc_Inl_iff by blast
  then have "finalize (connect d) n = (error (''Booking '' @ quoted n @ '' not found''), connect d)"
    using finalize_not_found[of "connect d" n] by simp
  with Inl show ?thesis by simp
next
  case (Inr b)
  then have present: "\<not> (\<forall>b \<in> set (tabBooking d). name b \<noteq> n)"
    using get_doc_Inl_iff[of d n] by auto
  show ?thesis
  proof (cases "status b = ''Created''")
    case True
    let ?b' = "b\<lparr>status := ''Pending''\<rparr>"
    let ?c = "commit (save (connect d) ?b')"
    have nb: "name ?b' = n" using get_doc_Inr_name[OF Inr] by simp
    have first: "finalize (connect d) n =
        (success (Status_data n (booking_name b) ''Pending'') ''Booking status updated successfully'', ?c)"
      using finalize_created[of "connect d" n b] Inr True by simp
    have stored: "get_doc (pending ?c) n = Inr (validate ?b')"
      using get_doc_save[of "connect d" n b ?b'] Inr nb by simp
    then have second: "finalize ?c n =
        (error (''Failed to update booking status: Booking '' @ quoted n @ '' already finalized''),
         rollback ?c)"
      by (intro finalize_wrong_status[where b = "validate ?b'"]) simp_all
    from first second stored Inr True present show ?thesis by auto
  next
    case False
    then have "finalize (connect d) n =
      (error (''Failed to update booking status: Booking '' @ quoted n @ '' already finalized''),
       connect d)"
      using finalize_wrong_status[of "connect d" n b] Inr by simp
    with Inr False present show ?thesis by auto
  qed
qed

theorem finalize_only_from_created_witness:
  "resp_status (fst (finalize (connect sample_db) ''B4'')) = ''success''
   \<and> (\<exists>b'. get_doc (committed (snd (finalize (connect sample_db) ''B4''))) ''B4'' = Inr b'
            \<and> status b' = ''Pending'')
   \<and> resp_message (fst (finalize (snd (finalize (connect sample_db) ''B4'')) ''B4'')) =
        ''Failed to update booking status: Booking '' @ quoted ''B4'' @ '' already finalized''
   \<and> resp_message (fst (finalize (connect sample_db) ''B5'')) =
        ''Failed to update booking status: Booking '' @ quoted ''B5'' @ '' already finalized''
   \<and> resp_message (fst (finalize (connect sample_db) ''B9'')) =
        ''Booking '' @ quoted ''B9'' @ '' not found''"
proof -
  have b4: "get_doc sample_db ''B4'' =
      Inr (sample_booking ''B4'' ''dan@example.org'' ''P1'' ''2024-06-01'' ''Created'' [adult 2])"
    by (simp add: get_doc_def sample_db_def sample_booking_def)
  have s4: "status (sample_booking ''B4'' ''dan@example.org'' ''P1'' ''2024-06-01'' ''Created'' [adult 2]) = ''Created''"
    by (simp add: sample_booking_def)
  have b5: "get_doc sample_db ''B5'' =
      Inr (sample_booking ''B5'' ''eve@example.org'' ''P2'' ''2024-05-01'' ''Pending'' [adult 1])"
    by (simp add: get_doc_def sample_db_def sample_booking_def)
  have s5: "status (sample_booking ''B5'' ''eve@example.org'' ''P2'' ''2024-05-01'' ''Pending'' [adult 1]) \<noteq> ''Created''"
    by (simp add: sample_booking_def)
  have b9: "\<forall>b \<in> set (tabBooking sample_db). name b \<noteq> ''B9''"
    by (simp add: sample_db_def sample_booking_def)
  show ?thesis
    using finalize_only_from_created[of sample_db "''B4''"]
      finalize_only_from_created[of sample_db "''B5''"]
      finalize_only_from_created[of sample_db "''B9''"]
      b4 s4 b5 s5 b9
    by (simp add: error_def)
qed

section \<open>Manifest: update\_manifest\<close>

lemma fold_append_participant:
  "fold append_participant ps b = b\<lparr>participants := participants b @ map with_doctype ps\<rparr>"
  by (induction ps arbitrary: b) (simp_all add: append_participant_def)


lemma manifest_missing_list:
  assumes "get_doc (pending c) n = Inr b"
  shows "update_manifest c fw n None =
    (error (''Failed to update booking status: object of type 'NoneType' has no len()''),
     rollback c)"
  using assms by (simp add: update_manifest_def update_manifest_try_def)

lemma manifest_too_many:
  assumes "get_doc (pending c) n = Inr b" and "int (length ps) > quantity b"
  shows "update_manifest c fw n (Some ps) =
    (error ''Failed to update booking status: Manifest has too many participants'', rollback c)"
  using assms by (simp add: update_manifest_def update_manifest_try_def)

lemma manifest_replaced:
  assumes "get_doc (pending c) n = Inr b" and "int (length ps) \<le> quantity b"
  shows "resp_status (fst (update_manifest c fw n (Some ps))) = ''success''"
    and "snd (update_manifest c fw n (Some ps)) =
           commit (save c (b\<lparr>participants := map with_doctype ps\<rparr>))"
  using assms
  by (simp_all add: update_manifest_def update_manifest_try_def Let_def fold_append_participant)

lemma with_doctype_fields:
  "filter (\<lambda>kv. fst kv \<noteq> ''doctype'') (with_doctype p) = filter (\<lambda>kv. fst kv \<noteq> ''doctype'') p"
  by (simp add: with_doctype_def)

text \<open>
  Claim C2. For a booking that exists with quantity \<open>q\<close>, \<open>update_manifest\<close> with more than
  \<open>q\<close> participants fails with the too-many-participants error and leaves the store, hence
  the stored participant list, unchanged. With at most \<open>q\<close> participants it succeeds and the
  stored list is the supplied sequence, each entry tagged with its doctype and otherwise
  verbatim; nothing of the previous list remains.
\<close>

theorem update_manifest_ceiling:
  "get_doc d n = Inr b \<Longrightarrow>
   (int (length ps) > quantity b \<longrightarrow>
      update_manifest (connect d) fw n (Some ps) =
        (error ''Failed to update booking status: Manifest has too many participants'', connect d)
      \<and> get_doc (committed (snd (update_manifest (connect d) fw n (Some ps)))) n = Inr b)
   \<and> (int (length ps) \<le> quantity b \<longrightarrow>
      resp_status (fst (update_manifest (connect d) fw n (Some ps))) = ''success''
      \<and> (\<exists>b'. get_doc (committed (snd (update_manifest (connect d) fw n (Some ps)))) n = Inr b'
            \<and> participants b' = map with_doctype ps
            \<and> map (filter (\<lambda>kv. fst kv \<noteq> ''doctype'')) (participants b')
                = map (filter (\<lambda>kv. fst kv \<noteq> ''doctype'')) ps))"
proof (intro conjI impI)
  assume g: "get_doc d n = Inr b" and many: "int (length ps) > quantity b"
  then show "update_manifest (connect d) fw n (Some ps) =
        (error ''Failed to update booking status: Manifest has too many participants'', connect d)"
    using manifest_too_many[of "connect d" n b ps fw] by simp
  with g show "get_doc (committed (snd (update_manifest (connect d) fw n (Some ps)))) n = Inr b"
    by simp
next
  assume g: "get_doc d n = Inr b" and few: "int (length ps) \<le> quantity b"
  let ?b' = "b\<lparr>participants := map with_doctype ps\<rparr>"
  from g few show "resp_status (fst (update_manifest (connect d) fw n (Some ps))) = ''success''"
    using manifest_replaced(1)[of "connect d" n b ps fw] by simp
  have c: "snd (update_manifest (connect d) fw n (Some ps)) = commit (save (connect d) ?b')"
    using manifest_replaced(2)[of "connect d" n b ps fw] g few by simp
  have "name ?b' = n" using get_doc_Inr_name[OF g] by simp
  then have "get_doc (pending (save (connect d) ?b')) n = Inr (validate ?b')"
    using get_doc_save[of "connect d" n b ?b'] g by simp
  with c have "get_doc (committed (snd (update_manifest (connect d) fw n (Some ps)))) n
      = Inr (validate ?b')" by simp
  moreover have "participants (validate ?b') = map with_doctype ps" by simp
  moreover have "map (filter (\<lambda>kv. fst kv \<noteq> ''doctype'')) (map with_doctype ps)
      = map (filter (\<lambda>kv. fst kv \<noteq> ''doctype'')) ps"
    by (simp add: with_doctype_fields)
  ultimately show "\<exists>b'. get_doc (committed (snd (update_manifest (connect d) fw n (Some ps)))) n = Inr b'
            \<and> participants b' = map with_doctype ps
            \<and> map (filter (\<lambda>kv. fst kv \<noteq> ''doctype'')) (participants b')
                = map (filter (\<lambda>kv. fst kv \<noteq> ''doctype'')) ps"
    by simp
qed

lemma sample_B1:
  "get_doc sample_db ''B1'' =
     Inr (sample_booking ''B1'' ''ann@example.org'' ''P1'' ''2024-06-01'' ''Approved'' [adult 3])"
  by (simp add: get_doc_def sample_db_def sample_booking_def)

lemma sample_B2:
  "get_doc sample_db ''B2'' =
     Inr ((sample_booking ''B2'' ''bob@example.org'' ''P1'' ''2024-06-01'' ''Approved''
            [adult 2, child 1])\<lparr>participants := [[(''full_name'', ''Bob'')]]\<rparr>)"
  by (simp add: get_doc_def sample_db_def sample_booking_def)

lemma sample_B1_quantity:
  "quantity (sample_booking ''B1'' ''ann@example.org'' ''P1'' ''2024-06-01'' ''Approved'' [adult 3]) = 3"
  by (simp add: sample_booking_def total_def adult_def)

theorem update_manifest_ceiling_witness:
  "update_manifest (connect sample_db) sample_env ''B1''
       (Some [[(''full_name'', ''Ann'')], [(''full_name'', ''Ben'')], [(''full_name'', ''Cy'')],
              [(''full_name'', ''Di'')]])
     = (error ''Failed to update booking status: Manifest has too many participants'',
        connect sample_db)
   \<and> resp_status (fst (update_manifest (connect sample_db) sample_env ''B1''
       (Some [[(''full_name'', ''Ann'')], [(''full_name'', ''Ben'')], [(''full_name'', ''Cy'')]])))
     = ''success''
   \<and> (\<exists>b'. get_doc (committed (snd (update_manifest (connect sample_db) sample_env ''B1''
       (Some [[(''full_name'', ''Ann'')], [(''full_name'', ''Ben'')], [(''full_name'', ''Cy'')]])))) ''B1''
         = Inr b'
       \<and> participants b' =
           [[(''doctype'', ''Booking Participant''), (''full_name'', ''Ann'')],
            [(''doctype'', ''Booking Participant''), (''full_name'', ''Ben'')],
            [(''doctype'', ''Booking Participant''), (''full_name'', ''Cy'')]])"
  using update_manifest_ceiling[OF sample_B1, of
      "[[(''full_name'', ''Ann'')], [(''full_name'', ''Ben'')], [(''full_name'', ''Cy'')],
        [(''full_name'', ''Di'')]]" sample_env]
    update_manifest_ceiling[OF sample_B1, of
      "[[(''full_name'', ''Ann'')], [(''full_name'', ''Ben'')], [(''full_name'', ''Cy'')]]" sample_env]
  by (auto simp: sample_B1_quantity with_doctype_def)

text \<open>
  Claim C10. For a booking that exists, \<open>update_manifest\<close> called without a participant list
  fails on the length check before any write: it returns the error envelope and the stored
  booking, its roster included, is as before.
\<close>

theorem update_manifest_without_participants:
  "get_doc d n = Inr b \<Longrightarrow>
   update_manifest (connect d) fw n None =
     (error (''Failed to update booking status: object of type 'NoneType' has no len()''),
      connect d)
   \<and> resp_status (fst (update_manifest (connect d) fw n None)) = ''error''
   \<and> resp_data (fst (update_manifest (connect d) fw n None)) = Empty_data
   \<and> get_doc (committed (snd (update_manifest (connect d) fw n None))) n = Inr b
   \<and> get_doc (pending (snd (update_manifest (connect d) fw n None))) n = Inr b"
  using manifest_missing_list[of "connect d" n b fw] by (simp add: error_def)

theorem update_manifest_without_participants_witness:
  "update_manifest (connect sample_db) sample_env ''B2'' None =
     (error (''Failed to update booking status: object of type 'NoneType' has no len()''),
      connect sample_db)
   \<and> (\<exists>b. get_doc (committed (snd (update_manifest (connect sample_db) sample_env ''B2'' None))) ''B2''
          = Inr b \<and> participants b = [[(''full_name'', ''Bob'')]])"
  using update_manifest_without_participants[OF sample_B2, of sample_env] sample_B2
  by (simp add: sample_booking_def)

section \<open>Intake: create\<close>

lemma find_append_fresh:
  "\<forall>x \<in> set xs. \<not> P x \<Longrightarrow> P y \<Longrightarrow> find P (xs @ [y]) = Some y"
  by (induction xs) auto

lemma get_doc_insert_doc:
  assumes "insert_doc c b = Inr c'"
  shows "get_doc (pending c') (name b) = Inr (validate b)"
proof -
  from assms have fresh: "\<forall>x \<in> set (tabBooking (pending c)). \<not> name x = name b"
    and c': "tabBooking (pending c') = tabBooking (pending c) @ [validate b]"
    by (auto simp: insert_doc_def split: if_splits)
  have "find (\<lambda>x. name x = name b) (tabBooking (pending c) @ [validate b]) = Some (validate b)"
    using fresh by (intro find_append_fresh) simp_all
  with c' show ?thesis by (simp add: get_doc_def)
qed

lemma quantity_validate [simp]: "quantity (validate b) = sum_list (map vq_quantity (variation_quantity b))"
  by (simp add: validate_def total_def)

lemma variation_quantity_validate [simp]: "variation_quantity (validate b) = variation_quantity b"
  by (simp add: validate_def)

lemma create_try_Inr:
  assumes "create_try c fw bn em cn pk dt vq ps sr = (Inr b, c')"
  shows "\<exists>vs. vq = Some vs \<and> vs \<noteq> [] \<and> quantity b = sum_list (map vq_quantity vs)
           \<and> variation_quantity b = vs \<and> status b = ''Created''
           \<and> get_doc (committed c') (name b) = Inr b"
  using assms
  by (auto simp: create_try_def Let_def split: if_splits sum.splits option.splits
      dest!: get_doc_insert_doc)

lemma create_try_no_items:
  assumes "vq = None \<or> vq = Some []"
  shows "create_try c fw bn em cn pk dt vq ps sr =
     (if \<not> (bn \<noteq> [] \<and> em \<noteq> [] \<and> cn \<noteq> [] \<and> pk \<noteq> [] \<and> dt \<noteq> [])
      then (Inl (ValueError ''All required fields must be provided''), c)
      else if tabPackage (pending c) pk = None
      then (Inl (DoesNotExistError (''Package '' @ pk @ '' not found'')), c)
      else if getdate fw dt = None
      then (Inl (ValueError ''Invalid booking date format. Use YYYY-MM-DD''), c)
      else (Inl (ValueError ''Invalid variations provided''), c))"
  using assms
  by (auto simp: create_try_def get_package_def split: option.splits)

text \<open>
  Claim C6, as the code has it. Whenever \<open>create\<close> creates a booking, the line-item sequence
  was non-empty and the quantity of the booking, returned and stored, is the sum of the
  line-item quantities. With an empty or missing sequence \<open>create\<close> always fails, returns the
  error envelope and writes nothing. The exception is a \<open>ValueError\<close> (required fields, date
  or variations), except that when all required fields are given and the package does not
  resolve, the package lookup, which comes first, fails with \<open>DoesNotExistError\<close>.
\<close>

theorem create_quantity_and_empty_items:
  "(\<forall>b c'. create_try c fw bn em cn pk dt vq ps sr = (Inr b, c') \<longrightarrow>
       (\<exists>vs. vq = Some vs \<and> vs \<noteq> [] \<and> quantity b = sum_list (map vq_quantity vs)
           \<and> variation_quantity b = vs \<and> status b = ''Created''
           \<and> get_doc (committed c') (name b) = Inr b)
       \<and> create c fw bn em cn pk dt vq ps sr
           = (success (Booking_data b) ''Booking created successfully'', c'))
   \<and> (vq = None \<or> vq = Some [] \<longrightarrow>
       (\<exists>e. create_try c fw bn em cn pk dt vq ps sr = (Inl e, c)
          \<and> create c fw bn em cn pk dt vq ps sr
              = (error (''Failed to create booking: '' @ str e), rollback c)
          \<and> (if bn \<noteq> [] \<and> em \<noteq> [] \<and> cn \<noteq> [] \<and> pk \<noteq> [] \<and> dt \<noteq> []
                 \<and> tabPackage (pending c) pk = None
              then e = DoesNotExistError (''Package '' @ pk @ '' not found'')
              else e \<in> {ValueError ''All required fields must be provided'',
                        ValueError ''Invalid booking date format. Use YYYY-MM-DD'',
                        ValueError ''Invalid variations provided''})))"
proof (intro conjI allI impI)
  fix b c'
  assume ok: "create_try c fw bn em cn pk dt vq ps sr = (Inr b, c')"
  then show "\<exists>vs. vq = Some vs \<and> vs \<noteq> [] \<and> quantity b = sum_list (map vq_quantity vs)
           \<and> variation_quantity b = vs \<and> status b = ''Created''
           \<and> get_doc (committed c') (name b) = Inr b"
    by (rule create_try_Inr)
  from ok show "create c fw bn em cn pk dt vq ps sr
           = (success (Booking_data b) ''Booking created successfully'', c')"
    by (simp add: create_def)
next
  assume "vq = None \<or> vq = Some []"
  note no = create_try_no_items[OF this, of c fw bn em cn pk dt ps sr]
  show "\<exists>e. create_try c fw bn em cn pk dt vq ps sr = (Inl e, c)
          \<and> create c fw bn em cn pk dt vq ps sr
              = (error (''Failed to create booking: '' @ str e), rollback c)
          \<and> (if bn \<noteq> [] \<and> em \<noteq> [] \<and> cn \<noteq> [] \<and> pk \<noteq> [] \<and> dt \<noteq> []
                 \<and> tabPackage (pending c) pk = None
              then e = DoesNotExistError (''Package '' @ pk @ '' not found'')
              else e \<in> {ValueError ''All required fields must be provided'',
                        ValueError ''Invalid booking date format. Use YYYY-MM-DD'',
                        ValueError ''Invalid variations provided''})"
    unfolding create_def no by (simp split: if_splits)
qed

theorem create_quantity_and_empty_items_witness:
  "(\<exists>b c'. create (connect sample_db) sample_env ''Party B6'' ''fay@example.org'' ''0123456'' ''P1''
       ''2024-06-01'' (Some [adult 2, child 1]) None None
       = (success (Booking_data b) ''Booking created successfully'', c')
     \<and> quantity b = 3 \<and> get_doc (committed c') (name b) = Inr b)
   \<and> (\<exists>e \<in> {ValueError ''All required fields must be provided'',
              ValueError ''Invalid booking date format. Use YYYY-MM-DD'',
              ValueError ''Invalid variations provided''}.
        create (connect sample_db) sample_env ''Party B7'' ''fay@example.org'' ''0123456'' ''P1''
          ''2024-06-01'' (Some []) None None
        = (error (''Failed to create booking: '' @ str e), connect sample_db))"
proof -
  have "\<exists>b c'. create_try (connect sample_db) sample_env ''Party B6'' ''fay@example.org''
      ''0123456'' ''P1'' ''2024-06-01'' (Some [adult 2, child 1]) None None = (Inr b, c')"
    by (simp add: create_try_def Let_def get_package_def insert_doc_def sample_db_def sample_env_def
        sample_booking_def)
  then obtain b c' where run: "create_try (connect sample_db) sample_env ''Party B6''
      ''fay@example.org'' ''0123456'' ''P1'' ''2024-06-01'' (Some [adult 2, child 1]) None None
      = (Inr b, c')"
    by blast
  have catalogue: "tabPackage (pending (connect sample_db)) ''P1'' \<noteq> None"
    by (simp add: sample_db_def)
  from run create_quantity_and_empty_items[of "connect sample_db" sample_env "''Party B6''"
      "''fay@example.org''" "''0123456''" "''P1''" "''2024-06-01''" "Some [adult 2, child 1]" None None]
  have "create (connect sample_db) sample_env ''Party B6'' ''fay@example.org'' ''0123456'' ''P1''
       ''2024-06-01'' (Some [adult 2, child 1]) None None
       = (success (Booking_data b) ''Booking created successfully'', c')
     \<and> quantity b = 3 \<and> get_doc (committed c') (name b) = Inr b"
    by (simp add: adult_def child_def)
  moreover from catalogue create_quantity_and_empty_items[of "connect sample_db" sample_env
      "''Party B7''" "''fay@example.org''" "''0123456''" "''P1''" "''2024-06-01''" "Some []" None None]
  have "\<exists>e \<in> {ValueError ''All required fields must be provided'',
              ValueError ''Invalid booking date format. Use YYYY-MM-DD'',
              ValueError ''Invalid variations provided''}.
        create (connect sample_db) sample_env ''Party B7'' ''fay@example.org'' ''0123456'' ''P1''
          ''2024-06-01'' (Some []) None None
        = (error (''Failed to create booking: '' @ str e), connect sample_db)"
    by auto
  ultimately show ?thesis by blast
qed

text \<open>
  Claim C6 as stated fails where the package reference does not resolve: the call with an
  empty line-item sequence then fails on the package lookup, not on the input validation.
\<close>

theorem create_empty_items_counterexample:
  "create (connect sample_db) sample_env ''Party B7'' ''fay@example.org'' ''0123456'' ''P9''
       ''2024-06-01'' (Some []) None None
     = (error ''Failed to create booking: Package P9 not found'', connect sample_db)
   \<and> fst (create_try (connect sample_db) sample_env ''Party B7'' ''fay@example.org'' ''0123456'' ''P9''
       ''2024-06-01'' (Some []) None None)
     = Inl (DoesNotExistError ''Package P9 not found'')"
  by (simp add: create_def create_try_def get_package_def sample_db_def)

section \<open>Failure policy\<close>






lemma committed_rollback [simp]: "committed (rollback c) = committed c"
  by (simp add: rollback_def)

lemma pending_rollback [simp]: "pending (rollback c) = committed c"
  by (simp add: rollback_def)

lemma error_fields [simp]: "resp_data (error m) = Empty_data" "resp_message (error m) = m"
  by (simp_all add: error_def)




section \<open>Trip filters\<close>




lemma fold_update_distinct:
  "distinct (map fst acc) \<Longrightarrow>
   distinct (map fst (fold (\<lambda>f out. if P f then AList.update (kf f) (vf f) out else out) fs acc))"
  by (induction fs arbitrary: acc) (simp_all add: distinct_update)



lemma simple_filters_distinct: "distinct (map fst (simple_filters_to_dict fs))"
  unfolding simple_filters_to_dict_def
  by (rule fold_update_distinct) simp


section \<open>Grouping\<close>

lemma groups_member:
  "(x, g) \<in> set (groups k xs) \<Longrightarrow> x \<in> set xs \<and> g = filter (\<lambda>y. k y = k x) xs"
proof (induction k xs rule: groups.induct)
  case (1 k)
  then show ?case by simp
next
  case (2 k z zs)
  from "2.prems" consider (head) "x = z" "g = z # filter (\<lambda>y. k y = k z) zs"
    | (tail) "(x, g) \<in> set (groups k (filter (\<lambda>y. k y \<noteq> k z) zs))"
    by auto
  then show ?case
  proof cases
    case head
    then show ?thesis by simp
  next
    case tail
    from "2.IH"[OF tail] have x: "x \<in> set zs" "k x \<noteq> k z"
      and g: "g = filter (\<lambda>y. k y = k x) (filter (\<lambda>y. k y \<noteq> k z) zs)"
      by auto
    have "filter (\<lambda>y. k y = k x) (filter (\<lambda>y. k y \<noteq> k z) zs) = filter (\<lambda>y. k y = k x) zs"
      using x(2) by (auto intro: filter_cong)
    with x g show ?thesis by auto
  qed
qed

lemma groups_keys_set: "(k \<circ> fst) ` set (groups k xs) = k ` set xs"
proof (induction k xs rule: groups.induct)
  case (1 k)
  then show ?case by simp
next
  case (2 k z zs)
  have "k ` set (z # zs) = insert (k z) (k ` {y \<in> set zs. k y \<noteq> k z})"
    by auto
  with "2.IH" show ?case by simp
qed

lemma groups_keys_distinct: "distinct (map (k \<circ> fst) (groups k xs))"
proof (induction k xs rule: groups.induct)
  case (1 k)
  then show ?case by simp
next
  case (2 k z zs)
  have "k z \<notin> (k \<circ> fst) ` set (groups k (filter (\<lambda>y. k y \<noteq> k z) zs))"
    unfolding groups_keys_set by auto
  with "2.IH" show ?case by simp
qed

lemma length_groups: "length (groups k xs) = card (k ` set xs)"
proof -
  have "card (k ` set xs) = card (set (map (k \<circ> fst) (groups k xs)))"
    using groups_keys_set[of k xs] by simp
  also have "\<dots> = length (map (k \<circ> fst) (groups k xs))"
    by (rule distinct_card) (rule groups_keys_distinct)
  finally show ?thesis by simp
qed

section \<open>Counting trips\<close>

lemma list_all_map_of:
  assumes "distinct (map fst al)"
  shows "list_all (\<lambda>(k, v). Q k v) al \<longleftrightarrow> (\<forall>k v. map_of al k = Some v \<longrightarrow> Q k v)"
  using assms by (auto simp: list_all_iff map_of_eq_Some_iff)

lemma field_name_status [simp]: "field_name (Str ''status'') = Some ''status''"
  by simp

lemma column_status [simp]: "column ''status'' b = Some v \<longleftrightarrow> v = Str (status b)"
  by (auto simp: column_def)

lemma get_all_forced_status:
  assumes "distinct (map fst user)" and "\<forall>k \<in> fst ` set user. field_name k \<noteq> None"
  shows "get_all d (AList.update (Str ''status'') (Str ''Approved'') user)
    = Inr (filter (\<lambda>b. status b = ''Approved'' \<and>
        (\<forall>k v. map_of user k = Some v \<and> k \<noteq> Str ''status''
            \<longrightarrow> column (the (field_name k)) b = Some v)) (tabBooking d))"
proof -
  let ?fs = "AList.update (Str ''status'') (Str ''Approved'') user"
  have dist: "distinct (map fst ?fs)"
    using assms(1) by (simp add: distinct_update)
  have known: "list_all (\<lambda>(k, v). field_name k \<noteq> None) ?fs"
  proof -
    have "\<forall>k \<in> fst ` set ?fs. field_name k \<noteq> None"
      using assms(2) unfolding dom_update by simp
    then show ?thesis by (auto simp: list_all_iff)
  qed
  have "list_all (\<lambda>(k, v). column (the (field_name k)) b = Some v) ?fs
      \<longleftrightarrow> status b = ''Approved'' \<and>
        (\<forall>k v. map_of user k = Some v \<and> k \<noteq> Str ''status''
            \<longrightarrow> column (the (field_name k)) b = Some v)" for b
    unfolding list_all_map_of[OF dist] update_conv' by auto
  then show ?thesis using known by (simp add: get_all_def)
qed

text \<open>
  Claim C4, as the code has it. \<open>get_count\<close> returns the number of distinct
  \<open>(package, booking_date)\<close> pairs among the bookings whose status is \<open>Approved\<close> and which
  carry, for every key of the normalised filter other than \<open>status\<close>, the value given for
  that key in the column of that name: every key is applied, not only \<open>package\<close> and
  \<open>booking_date\<close>. A \<open>status\<close> entry of the caller is replaced by \<open>Approved\<close>. Without
  filters the result is the number of distinct pairs among all approved bookings.
\<close>

theorem get_count_groups:
  "get_count d None =
     Inr (card ((\<lambda>b. (package b, booking_date b)) `
        {b \<in> set (tabBooking d). status b = ''Approved''}))
   \<and> (distinct (map fst (normalize f)) \<and> (\<forall>k \<in> fst ` set (normalize f). field_name k \<noteq> None)
      \<longrightarrow> get_count d (Some f) =
        Inr (card ((\<lambda>b. (package b, booking_date b)) `
          {b \<in> set (tabBooking d). status b = ''Approved'' \<and>
             (\<forall>k v. map_of (normalize f) k = Some v \<and> k \<noteq> Str ''status''
                 \<longrightarrow> column (the (field_name k)) b = Some v)})))"
proof (intro conjI impI)
  have "get_all d (AList.update (Str ''status'') (Str ''Approved'') [])
      = Inr (filter (\<lambda>b. status b = ''Approved'') (tabBooking d))"
    using get_all_forced_status[of "[]" d] by simp
  then show "get_count d None =
     Inr (card ((\<lambda>b. (package b, booking_date b)) `
        {b \<in> set (tabBooking d). status b = ''Approved''}))"
    by (simp add: get_count_def normalize_def length_groups)
next
  assume "distinct (map fst (normalize f)) \<and> (\<forall>k \<in> fst ` set (normalize f). field_name k \<noteq> None)"
  then have "get_all d (AList.update (Str ''status'') (Str ''Approved'') (normalize f))
    = Inr (filter (\<lambda>b. status b = ''Approved'' \<and>
        (\<forall>k v. map_of (normalize f) k = Some v \<and> k \<noteq> Str ''status''
            \<longrightarrow> column (the (field_name k)) b = Some v)) (tabBooking d))"
    by (intro get_all_forced_status) simp_all
  then show "get_count d (Some f) =
        Inr (card ((\<lambda>b. (package b, booking_date b)) `
          {b \<in> set (tabBooking d). status b = ''Approved'' \<and>
             (\<forall>k v. map_of (normalize f) k = Some v \<and> k \<noteq> Str ''status''
                 \<longrightarrow> column (the (field_name k)) b = Some v)}))"
    by (simp add: get_count_def length_groups)
qed

theorem get_count_groups_witness:
  "get_count sample_db None = Inr 2
   \<and> card ((\<lambda>b. (package b, booking_date b)) `
        {b \<in> set (tabBooking sample_db). status b = ''Approved''}) = 2
   \<and> get_count sample_db (Some (Filter_dict
        [(Str ''status'', Str ''Pending''), (Str ''package'', Str ''P1'')])) = Inr 1
   \<and> card ((\<lambda>b. (package b, booking_date b)) `
          {b \<in> set (tabBooking sample_db). status b = ''Approved'' \<and>
             (\<forall>k v. map_of (normalize (Filter_dict
                 [(Str ''status'', Str ''Pending''), (Str ''package'', Str ''P1'')])) k = Some v
                 \<and> k \<noteq> Str ''status''
                 \<longrightarrow> column (the (field_name k)) b = Some v)}) = 1"
proof -
  let ?f = "Filter_dict [(Str ''status'', Str ''Pending''), (Str ''package'', Str ''P1'')]"
  have hyp: "distinct (map fst (normalize ?f)) \<and> (\<forall>k \<in> fst ` set (normalize ?f). field_name k \<noteq> None)"
    by (simp add: normalize_def)
  have all: "get_count sample_db None = Inr 2"
    by code_simp
  have some: "get_count sample_db (Some ?f) = Inr 1"
    by code_simp
  from get_count_groups[of sample_db ?f] hyp all some show ?thesis
    by simp
qed

text \<open>
  Claim C4 as stated fails for a key that \<open>get_list\<close> does not recognise: a filter on
  \<open>email\<close> leaves the listing at its two trips and brings the count down to one.
\<close>

theorem get_count_unrecognised_key_counterexample:
  "get_count sample_db (Some (Filter_list
        [[Str ''Booking'', Str ''email'', Str ''='', Str ''ann@example.org'']])) = Inr 1
   \<and> get_count sample_db None = Inr 2
   \<and> get_list sample_db (Some \<lparr>limit_start = None, limit_page_length = None,
         filters = Some (Filter_list
           [[Str ''Booking'', Str ''email'', Str ''='', Str ''ann@example.org'']])\<rparr>)
     = Inr [\<lparr>row_name = ''B3'', row_booking_date = ''2024-05-01'', row_package = ''Island Hop'',
              row_resource = ''R1'', row_resource_name = ''Boat'', row_capacity = 10,
              row_quantity = 4, row_id = ''Island Hop-2024-05-01''\<rparr>,
            \<lparr>row_name = ''B1'', row_booking_date = ''2024-06-01'', row_package = ''Reef Tour'',
              row_resource = ''R1'', row_resource_name = ''Boat'', row_capacity = 10,
              row_quantity = 6, row_id = ''Reef Tour-2024-06-01''\<rparr>]"
  by code_simp

section \<open>Listing trips\<close>







lemma row_fields_with_id [simp]:
  "row_booking_date (with_id t) = row_booking_date t"
  "row_package (with_id t) = row_package t"
  "row_quantity (with_id t) = row_quantity t"
  "row_id (with_id t) = row_package t @ ''-'' @ row_booking_date t"
  by (simp_all add: with_id_def trip_row.defs listed_trip.defs)











section \<open>Filters applied by the listing\<close>







section \<open>Loading a trip\<close>

lemma filter_names_distinct:
  assumes "distinct (map name xs)"
  shows "filter (\<lambda>b. name b \<in> set (map name (filter P xs))) xs = filter P xs"
proof (rule filter_cong[OF refl])
  fix b assume b: "b \<in> set xs"
  from assms have inj: "inj_on name (set xs)" by (simp add: distinct_map)
  show "(name b \<in> set (map name (filter P xs))) = P b"
  proof
    assume "name b \<in> set (map name (filter P xs))"
    then obtain x where "x \<in> set xs" "P x" "name x = name b" by auto
    with inj b have "x = b" by (auto dest: inj_onD)
    with \<open>P x\<close> show "P b" by simp
  next
    assume "P b"
    with b show "name b \<in> set (map name (filter P xs))" by auto
  qed
qed

lemma map_variation_sum_by_variation:
  "map vq_variation (sum_by_variation items) = map (vq_variation \<circ> fst) (groups vq_variation items)"
  by (auto simp: sum_by_variation_def)

lemma sum_by_variation_distinct: "distinct (map vq_variation (sum_by_variation items))"
  by (simp only: map_variation_sum_by_variation groups_keys_distinct)

lemma sum_by_variation_set:
  "vq_variation ` set (sum_by_variation items) = vq_variation ` set items"
proof -
  have "vq_variation ` set (sum_by_variation items)
      = set (map vq_variation (sum_by_variation items))"
    by simp
  also have "\<dots> = (vq_variation \<circ> fst) ` set (groups vq_variation items)"
    by (simp only: map_variation_sum_by_variation set_map)
  finally show ?thesis by (simp only: groups_keys_set)
qed

lemma sum_by_variation_quantity:
  assumes "li \<in> set (sum_by_variation items)"
  shows "vq_quantity li =
    sum_list (map vq_quantity (filter (\<lambda>x. vq_variation x = vq_variation li) items))"
proof -
  from assms obtain x g where xg: "(x, g) \<in> set (groups vq_variation items)"
    and li: "li = \<lparr>vq_variation = vq_variation x, vq_quantity = total g\<rparr>"
    by (auto simp: sum_by_variation_def)
  from groups_member[OF xg] have "g = filter (\<lambda>y. vq_variation y = vq_variation x) items"
    by simp
  with li show ?thesis by (simp add: total_def)
qed

lemma get_package_Inl: "get_package d n = Inl e \<Longrightarrow> \<exists>m. e = DoesNotExistError m"
  by (auto simp: get_package_def split: option.splits)

lemma get_resource_Inl: "get_resource d n = Inl e \<Longrightarrow> \<exists>m. e = DoesNotExistError m"
  by (auto simp: get_resource_def split: option.splits)

lemma load_from_db_not_found_iff:
  "load_from_db d n = Inl (ValidationError ''Scheduled Trip not found'')
     \<longleftrightarrow> \<not> (\<exists>b \<in> set (tabBooking d). name b = n \<and> status b = ''Approved'')"
proof (cases "find (\<lambda>b. status b = ''Approved'' \<and> name b = n) (tabBooking d)")
  case None
  then have "\<not> (\<exists>b \<in> set (tabBooking d). name b = n \<and> status b = ''Approved'')"
    by (auto simp: find_None_iff)
  with None show ?thesis by (simp add: load_from_db_def)
next
  case (Some row)
  then have ex: "\<exists>b \<in> set (tabBooking d). name b = n \<and> status b = ''Approved''"
    by (auto dest: find_Some_mem)
  have "load_from_db d n \<noteq> Inl (ValidationError ''Scheduled Trip not found'')"
    using Some
    by (auto simp: load_from_db_def Let_def split: sum.splits
        dest!: get_package_Inl get_resource_Inl)
  with ex show ?thesis by simp
qed

text \<open>
  Claim C9. \<open>load_from_db\<close> fails with \<open>Scheduled Trip not found\<close> if and only if no stored
  booking has the given name together with status \<open>Approved\<close>; in particular it fails so when
  the bookings of that name are all in another status.
\<close>

theorem load_trip_not_found:
  "(load_from_db d n = Inl (ValidationError ''Scheduled Trip not found'')
      \<longleftrightarrow> \<not> (\<exists>b \<in> set (tabBooking d). name b = n \<and> status b = ''Approved''))
   \<and> ((\<forall>b \<in> set (tabBooking d). name b = n \<longrightarrow> status b \<noteq> ''Approved'')
      \<longrightarrow> load_from_db d n = Inl (ValidationError ''Scheduled Trip not found''))"
  using load_from_db_not_found_iff[of d n] by blast

theorem load_trip_not_found_witness:
  "load_from_db sample_db ''B4'' = Inl (ValidationError ''Scheduled Trip not found'')
   \<and> load_from_db sample_db ''B9'' = Inl (ValidationError ''Scheduled Trip not found'')
   \<and> load_from_db sample_db ''B1'' \<noteq> Inl (ValidationError ''Scheduled Trip not found'')"
proof -
  have b4: "\<forall>b \<in> set (tabBooking sample_db). name b = ''B4'' \<longrightarrow> status b \<noteq> ''Approved''"
    by (simp add: sample_db_def sample_booking_def)
  have b9: "\<forall>b \<in> set (tabBooking sample_db). name b = ''B9'' \<longrightarrow> status b \<noteq> ''Approved''"
    by (simp add: sample_db_def sample_booking_def)
  have b1: "\<exists>b \<in> set (tabBooking sample_db). name b = ''B1'' \<and> status b = ''Approved''"
    by (simp add: sample_db_def sample_booking_def)
  from b4 b9 b1 load_trip_not_found[of sample_db "''B4''"] load_trip_not_found[of sample_db "''B9''"]
    load_trip_not_found[of sample_db "''B1''"]
  show ?thesis by blast
qed

lemma load_from_db_unfold:
  assumes "find (\<lambda>b. status b = ''Approved'' \<and> name b = n) (tabBooking d) = Some row"
    and "get_package d (package row) = Inr pkg"
    and "get_resource d (resource pkg) = Inr res"
    and "bs = filter (\<lambda>b. status b = ''Approved'' \<and> booking_date b = booking_date row
                        \<and> package b = package row) (tabBooking d)"
  shows "load_from_db d n =
     Inr \<lparr>trip_name = n,
          trip_booking_date = booking_date row,
          trip_package = package row,
          trip_capacity = capacity res,
          trip_quantity = sum_list (map quantity bs),
          trip_bookings = enumerate 1 bs,
          trip_participants = enumerate 1 (concat (map participants
             (filter (\<lambda>b. name b \<in> set (map name bs)) (tabBooking d)))),
          trip_variation_quantity = enumerate 1 (sum_by_variation (concat (map variation_quantity
             (filter (\<lambda>b. name b \<in> set (map name bs)) (tabBooking d)))))\<rparr>"
  by (simp only: load_from_db_def Let_def assms option.case sum.case)

lemma load_from_db_Inr_cases:
  assumes "load_from_db d n = Inr t"
  obtains row pkg res where
    "find (\<lambda>b. status b = ''Approved'' \<and> name b = n) (tabBooking d) = Some row"
    "get_package d (package row) = Inr pkg"
    "get_resource d (resource pkg) = Inr res"
proof (cases "find (\<lambda>b. status b = ''Approved'' \<and> name b = n) (tabBooking d)")
  case None
  with assms show ?thesis by (simp add: load_from_db_def)
next
  case (Some row)
  show ?thesis
  proof (cases "get_package d (package row)")
    case (Inl e)
    with Some assms show ?thesis by (simp add: load_from_db_def)
  next
    case pk: (Inr pkg)
    show ?thesis
    proof (cases "get_resource d (resource pkg)")
      case (Inl e)
      with Some pk assms show ?thesis by (simp add: load_from_db_def)
    next
      case (Inr res)
      with Some pk that show ?thesis by blast
    qed
  qed
qed

lemma load_from_db_Inr_aggregates:
  "load_from_db d n = Inr t \<Longrightarrow> distinct (map name (tabBooking d)) \<Longrightarrow>
   (let bs = filter (\<lambda>b. status b = ''Approved'' \<and> booking_date b = trip_booking_date t
                          \<and> package b = trip_package t) (tabBooking d);
        items = concat (map variation_quantity bs)
    in (\<exists>b \<in> set bs. name b = n)
       \<and> map snd (trip_bookings t) = bs
       \<and> trip_quantity t = sum_list (map quantity bs)
       \<and> map snd (trip_participants t) = concat (map participants bs)
       \<and> distinct (map (vq_variation \<circ> snd) (trip_variation_quantity t))
       \<and> vq_variation ` snd ` set (trip_variation_quantity t) = vq_variation ` set items
       \<and> (\<forall>li \<in> snd ` set (trip_variation_quantity t).
            vq_quantity li =
              sum_list (map vq_quantity (filter (\<lambda>x. vq_variation x = vq_variation li) items)))
       \<and> map fst (trip_bookings t) = [1..<Suc (length bs)]
       \<and> map fst (trip_participants t) = [1..<Suc (length (trip_participants t))]
       \<and> map fst (trip_variation_quantity t) = [1..<Suc (length (trip_variation_quantity t))])"
proof -
  assume load: "load_from_db d n = Inr t" and dist: "distinct (map name (tabBooking d))"
  from load obtain row pkg res where
    f: "find (\<lambda>b. status b = ''Approved'' \<and> name b = n) (tabBooking d) = Some row"
    and pk: "get_package d (package row) = Inr pkg"
    and rs: "get_resource d (resource pkg) = Inr res"
    by (rule load_from_db_Inr_cases)
  define bs where "bs = filter (\<lambda>b. status b = ''Approved'' \<and> booking_date b = booking_date row
                        \<and> package b = package row) (tabBooking d)"
  define items where "items = concat (map variation_quantity bs)"
  have same: "filter (\<lambda>b. name b \<in> set (map name bs)) (tabBooking d) = bs"
    unfolding bs_def using dist by (rule filter_names_distinct)
  from load load_from_db_unfold[OF f pk rs bs_def]
  have t: "t = \<lparr>trip_name = n,
          trip_booking_date = booking_date row,
          trip_package = package row,
          trip_capacity = capacity res,
          trip_quantity = sum_list (map quantity bs),
          trip_bookings = enumerate 1 bs,
          trip_participants = enumerate 1 (concat (map participants bs)),
          trip_variation_quantity = enumerate 1 (sum_by_variation items)\<rparr>"
    by (simp only: same items_def sum.inject)
  have key: "trip_booking_date t = booking_date row" "trip_package t = package row"
    by (simp_all add: t)
  from find_Some_mem[OF f] have "row \<in> set bs" "name row = n"
    by (simp_all add: bs_def)
  then have rep: "\<exists>b \<in> set bs. name b = n" by blast
  have bk: "map snd (trip_bookings t) = bs" by (simp add: t)
  have q: "trip_quantity t = sum_list (map quantity bs)" by (simp add: t)
  have ps: "map snd (trip_participants t) = concat (map participants bs)" by (simp add: t)
  have vs: "map snd (trip_variation_quantity t) = sum_by_variation items" by (simp add: t)
  have "map (vq_variation \<circ> snd) (trip_variation_quantity t)
      = map vq_variation (map snd (trip_variation_quantity t))"
    by simp
  then have vd: "distinct (map (vq_variation \<circ> snd) (trip_variation_quantity t))"
    by (simp only: vs sum_by_variation_distinct)
  have img: "snd ` set (trip_variation_quantity t) = set (sum_by_variation items)"
    using vs by (metis set_map)
  have vset: "vq_variation ` snd ` set (trip_variation_quantity t) = vq_variation ` set items"
    by (simp only: img sum_by_variation_set)
  have vq: "\<forall>li \<in> snd ` set (trip_variation_quantity t).
            vq_quantity li =
              sum_list (map vq_quantity (filter (\<lambda>x. vq_variation x = vq_variation li) items))"
    unfolding img using sum_by_variation_quantity by blast
  have i1: "map fst (trip_bookings t) = [1..<Suc (length bs)]" by (simp add: t)
  have i2: "map fst (trip_participants t) = [1..<Suc (length (trip_participants t))]"
    by (simp add: t)
  have i3: "map fst (trip_variation_quantity t) = [1..<Suc (length (trip_variation_quantity t))]"
    by (simp add: t)
  from rep bk q ps vd vset vq i1 i2 i3 show ?thesis
    unfolding Let_def key bs_def[symmetric] items_def[symmetric]
    by (intro conjI)
qed

lemma sample_load:
  "load_from_db sample_db ''B1'' =
     Inr \<lparr>trip_name = ''B1'', trip_booking_date = ''2024-06-01'', trip_package = ''P1'',
          trip_capacity = 10, trip_quantity = 6,
          trip_bookings =
            [(1, sample_booking ''B1'' ''ann@example.org'' ''P1'' ''2024-06-01'' ''Approved'' [adult 3]),
             (2, (sample_booking ''B2'' ''bob@example.org'' ''P1'' ''2024-06-01'' ''Approved''
                    [adult 2, child 1])\<lparr>participants := [[(''full_name'', ''Bob'')]]\<rparr>)],
          trip_participants = [(1, [(''full_name'', ''Bob'')])],
          trip_variation_quantity = [(1, adult 5), (2, child 1)]\<rparr>"
  by code_simp

lemma find_unique:
  "x \<in> set xs \<Longrightarrow> P x \<Longrightarrow> \<forall>y \<in> set xs. P y \<longrightarrow> y = x \<Longrightarrow> find P xs = Some x"
proof (induction xs)
  case Nil
  then show ?case by simp
next
  case (Cons a xs)
  show ?case
  proof (cases "P a")
    case True
    with Cons.prems(3) have "a = x" by simp
    with True show ?thesis by simp
  next
    case False
    with Cons.prems(1,2) have "x \<in> set xs" by auto
    moreover from Cons.prems(3) have "\<forall>y \<in> set xs. P y \<longrightarrow> y = x" by simp
    ultimately have "find P xs = Some x" using Cons.prems(2) by (intro Cons.IH)
    with False show ?thesis by simp
  qed
qed

lemma find_representative:
  assumes "row \<in> set (tabBooking d)" and "name row = n" and "status row = ''Approved''"
    and "distinct (map name (tabBooking d))"
  shows "find (\<lambda>b. status b = ''Approved'' \<and> name b = n) (tabBooking d) = Some row"
proof (rule find_unique)
  show "row \<in> set (tabBooking d)" by (rule assms(1))
  show "status row = ''Approved'' \<and> name row = n" using assms(2,3) by simp
  from assms(4) have inj: "inj_on name (set (tabBooking d))" by (simp add: distinct_map)
  show "\<forall>y \<in> set (tabBooking d). status y = ''Approved'' \<and> name y = n \<longrightarrow> y = row"
  proof (intro ballI impI)
    fix y assume "y \<in> set (tabBooking d)" and "status y = ''Approved'' \<and> name y = n"
    then have "name y = name row" using assms(2) by simp
    from inj this \<open>y \<in> set (tabBooking d)\<close> assms(1) show "y = row" by (rule inj_onD)
  qed
qed

lemma load_from_db_returns:
  assumes "row \<in> set (tabBooking d)" and "name row = n" and "status row = ''Approved''"
    and "tabPackage d (package row) = Some pkg" and "tabResource d (resource pkg) = Some res"
    and "distinct (map name (tabBooking d))"
  shows "\<exists>t. load_from_db d n = Inr t \<and> trip_name t = n
           \<and> trip_booking_date t = booking_date row
           \<and> trip_package t = package row \<and> trip_capacity t = capacity res"
proof -
  have f: "find (\<lambda>b. status b = ''Approved'' \<and> name b = n) (tabBooking d) = Some row"
    using assms(1,2,3,6) by (rule find_representative)
  have pk: "get_package d (package row) = Inr pkg"
    using assms(4) by (simp add: get_package_def)
  have rs: "get_resource d (resource pkg) = Inr res"
    using assms(5) by (simp add: get_resource_def)
  note eq = load_from_db_unfold[OF f pk rs refl]
  show ?thesis
    by (intro exI conjI, rule eq) (simp_all only: trip.select_convs)
qed

text \<open>
  Claim C3. In a store whose booking names are unique: when the named booking is stored with
  status \<open>Approved\<close> and its package and that package's resource are in the catalogue,
  \<open>load_from_db\<close> returns a trip, with the date and package of that booking and the capacity
  of the resource. Whenever it returns a trip, the trip's bookings are the approved bookings
  sharing its package and date, the representative among them; its quantity is the sum of
  their quantities; its participants are theirs; its variation totals list each variation of
  their line items once, with the sum of that variation's quantities over all these line
  items; and bookings, participants and variation totals are numbered 1, 2, 3, ... in order.
\<close>

theorem load_trip_aggregates:
  "distinct (map name (tabBooking d)) \<Longrightarrow>
   (row \<in> set (tabBooking d) \<and> name row = n \<and> status row = ''Approved''
      \<and> tabPackage d (package row) = Some pkg \<and> tabResource d (resource pkg) = Some res
    \<longrightarrow> (\<exists>t. load_from_db d n = Inr t \<and> trip_name t = n
           \<and> trip_booking_date t = booking_date row
           \<and> trip_package t = package row \<and> trip_capacity t = capacity res))
   \<and> (\<forall>t. load_from_db d n = Inr t \<longrightarrow>
      (let bs = filter (\<lambda>b. status b = ''Approved'' \<and> booking_date b = trip_booking_date t
                          \<and> package b = trip_package t) (tabBooking d);
           items = concat (map variation_quantity bs)
       in (\<exists>b \<in> set bs. name b = n)
          \<and> map snd (trip_bookings t) = bs
          \<and> trip_quantity t = sum_list (map quantity bs)
          \<and> map snd (trip_participants t) = concat (map participants bs)
          \<and> distinct (map (vq_variation \<circ> snd) (trip_variation_quantity t))
          \<and> vq_variation ` snd ` set (trip_variation_quantity t) = vq_variation ` set items
          \<and> (\<forall>li \<in> snd ` set (trip_variation_quantity t).
               vq_quantity li =
                 sum_list (map vq_quantity (filter (\<lambda>x. vq_variation x = vq_variation li) items)))
          \<and> map fst (trip_bookings t) = [1..<Suc (length bs)]
          \<and> map fst (trip_participants t) = [1..<Suc (length (trip_participants t))]
          \<and> map fst (trip_variation_quantity t) = [1..<Suc (length (trip_variation_quantity t))]))"
proof (intro conjI impI allI)
  assume dist: "distinct (map name (tabBooking d))"
  assume "row \<in> set (tabBooking d) \<and> name row = n \<and> status row = ''Approved''
      \<and> tabPackage d (package row) = Some pkg \<and> tabResource d (resource pkg) = Some res"
  with dist show "\<exists>t. load_from_db d n = Inr t \<and> trip_name t = n
           \<and> trip_booking_date t = booking_date row
           \<and> trip_package t = package row \<and> trip_capacity t = capacity res"
    using load_from_db_returns[of row d n pkg res] by blast
next
  fix t
  assume dist: "distinct (map name (tabBooking d))" and load: "load_from_db d n = Inr t"
  show "let bs = filter (\<lambda>b. status b = ''Approved'' \<and> booking_date b = trip_booking_date t
                          \<and> package b = trip_package t) (tabBooking d);
           items = concat (map variation_quantity bs)
       in (\<exists>b \<in> set bs. name b = n)
          \<and> map snd (trip_bookings t) = bs
          \<and> trip_quantity t = sum_list (map quantity bs)
          \<and> map snd (trip_participants t) = concat (map participants bs)
          \<and> distinct (map (vq_variation \<circ> snd) (trip_variation_quantity t))
          \<and> vq_variation ` snd ` set (trip_variation_quantity t) = vq_variation ` set items
          \<and> (\<forall>li \<in> snd ` set (trip_variation_quantity t).
               vq_quantity li =
                 sum_list (map vq_quantity (filter (\<lambda>x. vq_variation x = vq_variation li) items)))
          \<and> map fst (trip_bookings t) = [1..<Suc (length bs)]
          \<and> map fst (trip_participants t) = [1..<Suc (length (trip_participants t))]
          \<and> map fst (trip_variation_quantity t) = [1..<Suc (length (trip_variation_quantity t))]"
    by (rule load_from_db_Inr_aggregates[OF load dist])
qed

theorem load_trip_aggregates_witness:
  "distinct (map name (tabBooking sample_db))
   \<and> (\<exists>t. load_from_db sample_db ''B1'' = Inr t
        \<and> trip_booking_date t = ''2024-06-01'' \<and> trip_package t = ''P1'' \<and> trip_capacity t = 10
        \<and> trip_quantity t = 6
        \<and> map snd (trip_variation_quantity t) = [adult 5, child 1]
        \<and> map fst (trip_bookings t) = [1, 2]
        \<and> trip_quantity t = sum_list (map quantity
             (filter (\<lambda>b. status b = ''Approved'' \<and> booking_date b = trip_booking_date t
                          \<and> package b = trip_package t) (tabBooking sample_db))))"
proof -
  let ?row = "sample_booking ''B1'' ''ann@example.org'' ''P1'' ''2024-06-01'' ''Approved'' [adult 3]"
  let ?pkg = "\<lparr>package_name = ''Reef Tour'', resource = ''R1''\<rparr>"
  let ?res = "\<lparr>resource_name = ''Boat'', capacity = 10\<rparr>"
  have dist: "distinct (map name (tabBooking sample_db))"
    by (simp add: sample_db_def sample_booking_def)
  have hyp: "?row \<in> set (tabBooking sample_db) \<and> name ?row = ''B1'' \<and> status ?row = ''Approved''
      \<and> tabPackage sample_db (package ?row) = Some ?pkg
      \<and> tabResource sample_db (resource ?pkg) = Some ?res"
    by (simp add: sample_db_def sample_booking_def)
  note inst = load_trip_aggregates[OF dist, of ?row "''B1''" ?pkg ?res]
  from inst[THEN conjunct1, THEN mp, OF hyp]
  obtain t where t: "load_from_db sample_db ''B1'' = Inr t"
    and key: "trip_booking_date t = booking_date ?row" "trip_package t = package ?row"
      "trip_capacity t = capacity ?res"
    by (elim exE conjE)
  note agg = inst[THEN conjunct2, THEN spec, THEN mp, OF t, unfolded Let_def]
  have sum: "trip_quantity t = sum_list (map quantity
             (filter (\<lambda>b. status b = ''Approved'' \<and> booking_date b = trip_booking_date t
                          \<and> package b = trip_package t) (tabBooking sample_db)))"
    by (rule agg[THEN conjunct2, THEN conjunct2, THEN conjunct1])
  from t have eq: "t = \<lparr>trip_name = ''B1'', trip_booking_date = ''2024-06-01'', trip_package = ''P1'',
          trip_capacity = 10, trip_quantity = 6,
          trip_bookings =
            [(1, sample_booking ''B1'' ''ann@example.org'' ''P1'' ''2024-06-01'' ''Approved'' [adult 3]),
             (2, (sample_booking ''B2'' ''bob@example.org'' ''P1'' ''2024-06-01'' ''Approved''
                    [adult 2, child 1])\<lparr>participants := [[(''full_name'', ''Bob'')]]\<rparr>)],
          trip_participants = [(1, [(''full_name'', ''Bob'')])],
          trip_variation_quantity = [(1, adult 5), (2, child 1)]\<rparr>"
    by (simp only: sample_load sum.inject)
  have vals: "trip_quantity t = 6" "map snd (trip_variation_quantity t) = [adult 5, child 1]"
    "map fst (trip_bookings t) = [1, 2]"
    "trip_booking_date t = ''2024-06-01''" "trip_package t = ''P1''" "trip_capacity t = 10"
    by (simp_all add: eq)
  show ?thesis
    by (intro conjI exI[of _ t]) (rule dist t vals sum)+
qed

end
